theory Spec2Isabelle
  imports Main
begin

section \<open>DIDComm coordinate-mediation handlers of veramo: data model\<close>

text \<open>
  The embedding follows \<^verbatim>\<open>coordinate-mediation-message-handler\<close> (the handler source that
  follows the test suite in the did-comm package) and the \<^verbatim>\<open>DataStore\<close> plugin.
  A JavaScript object is a record; an optional property is an \<open>option\<close>; a thrown
  \<^verbatim>\<open>Error\<close> is the \<open>Inl\<close> of a sum; the agent's persistent state is passed explicitly.
\<close>

datatype error =
    InvalidArgument string    \<comment> \<open>\<^verbatim>\<open>new Error('invalid_argument: ...')\<close>\<close>
  | NotFound string           \<comment> \<open>\<^verbatim>\<open>new Error('not_found: ...')\<close>\<close>
  | TypeError string          \<comment> \<open>the run-time's own error on reading a property of null or undefined\<close>
  | Fault string              \<comment> \<open>a collaborator (packing gateway) that rejects\<close>

datatype update_action = Add | Remove

record update =
  recipient_did :: string
  action :: update_action

datatype update_result_code = success | no_change | client_error | server_error

record update_result = update +
  result :: update_result_code

text \<open>A property that a destructuring default can fill: the default applies to \<^verbatim>\<open>undefined\<close>
  and not to \<^verbatim>\<open>null\<close>, so the two are kept apart.\<close>

datatype 'a property = Undefined | Null | Defined 'a

text \<open>A message body, as far as the handlers read or write it: the two optional properties
  \<^verbatim>\<open>routing_did\<close> and \<^verbatim>\<open>updates\<close>. \<^verbatim>\<open>{}\<close> is the body with neither; a \<^verbatim>\<open>null\<close> or missing body is
  \<open>None\<close> where a message holds a \<open>body option\<close>. \<^verbatim>\<open>routing_did\<close> is only tested with \<^verbatim>\<open>!\<close>, which
  \<^verbatim>\<open>undefined\<close> and \<^verbatim>\<open>null\<close> answer alike: both are \<open>None\<close>.\<close>

record body =
  routing_did :: "string list option"
  updates :: "update list property"

definition empty_body :: body where
  "empty_body = \<lparr>routing_did = None, updates = Undefined\<rparr>"

text \<open>\<^verbatim>\<open>IDIDCommMessage\<close>: the wire message the builders create.\<close>

record didcomm_message =
  dc_type :: string
  dc_from :: "string option"
  dc_to :: "string option"
  dc_id :: string
  dc_thid :: "string option"
  dc_created_time :: "string option"
  dc_body :: "body option"
  dc_return_route :: "string option"

datatype endpoint = Str string | UriObj string   \<comment> \<open>a plain string, or the object \<^verbatim>\<open>{uri: ...}\<close>\<close>

datatype service_endpoint = Single endpoint | Many "endpoint list"

record service =
  service_id :: string
  service_type :: string
  serviceEndpoint :: service_endpoint

text \<open>The value of a meta data entry is \<^verbatim>\<open>JSON.stringify\<close> of an object; the model keeps the
  object.\<close>

datatype meta_value =
    ReturnRouteResponseJson string string string   \<comment> \<open>id, message, contentType\<close>
  | ServiceJson service

record meta_data =
  md_type :: string
  md_value :: meta_value

text \<open>The message object the handler chain passes on: the properties the handlers read.
  \<open>msg_body\<close> is the property \<^verbatim>\<open>body\<close> that \<^verbatim>\<open>handleRecipientUpdate\<close> destructures (its parameter
  is declared a \<^verbatim>\<open>RecipientUpdateMessage\<close>); \<open>msg_data\<close> is \<^verbatim>\<open>data\<close>, which the recipient handler
  reads and the store keeps. A message the chain delivers has its payload in \<^verbatim>\<open>data\<close> and no
  property \<^verbatim>\<open>body\<close>.\<close>

record message =
  msg_type :: string
  msg_from :: "string option"
  msg_to :: "string option"
  msg_id :: string
  msg_threadId :: "string option"
  msg_data :: "body option"
  msg_body :: "body option"
  msg_createdAt :: "string option"
  msg_metaData :: "meta_data list"

datatype MediationPolicy = ALLOW | DENY

datatype MediationStatus = GRANTED | DENIED

record IIdentifier =
  did :: string
  services :: "service list"

text \<open>What the agent persists: the message repository of \<^verbatim>\<open>DataStore\<close>, the identifiers of the
  DID manager with their services, the registry of recipient DIDs, the mediation policies and
  mediation records of \<^verbatim>\<open>IMediationManager\<close>, and what \<^verbatim>\<open>debug\<close> has printed. \<open>started\<close> holds the
  registry calls a handler has started and not awaited: each entry is the identifier and the
  updates of one \<^verbatim>\<open>updates.map\<close>, and the registry changes when they complete.\<close>

record agent_state =
  messages :: "string \<rightharpoonup> message"
  identifiers :: "string \<rightharpoonup> service list"
  recipient_dids :: "(string \<times> string) set"
  started :: "(IIdentifier \<times> update list) list"
  policies :: "string \<rightharpoonup> MediationPolicy"
  mediations :: "string \<rightharpoonup> MediationStatus"
  debug_log :: "error list"

text \<open>What a call takes from outside the state: the packing gateway (\<open>None\<close> when it rejects),
  the identifier \<^verbatim>\<open>v4()\<close> returns, the time stamp of \<^verbatim>\<open>new Date().toISOString()\<close>, and the
  process-wide flag \<^verbatim>\<open>isMediateDefaultGrantAll\<close>.\<close>

record agent_context =
  packDIDCommMessage :: "didcomm_message \<Rightarrow> string option"
  v4 :: string
  now :: string
  isMediateDefaultGrantAll :: bool

type_synonym 'a outcome = "(error + 'a) \<times> agent_state"

type_synonym handler = "message \<Rightarrow> agent_state \<Rightarrow> message outcome"

subsection \<open>Message types and builders\<close>

definition MEDIATE_REQUEST :: string where
  "MEDIATE_REQUEST = ''https://didcomm.org/coordinate-mediation/3.0/mediate-request''"

definition MEDIATE_GRANT :: string where
  "MEDIATE_GRANT = ''https://didcomm.org/coordinate-mediation/3.0/mediate-grant''"

definition MEDIATE_DENY :: string where
  "MEDIATE_DENY = ''https://didcomm.org/coordinate-mediation/3.0/mediate-deny''"

definition RECIPIENT_UPDATE :: string where
  "RECIPIENT_UPDATE = ''https://didcomm.org/coordinate-mediation/3.0/recipient-update''"

definition RECIPIENT_UPDATE_RESPONSE :: string where
  "RECIPIENT_UPDATE_RESPONSE =
     ''https://didcomm.org/coordinate-mediation/3.0/recipient-update-response''"

definition RECIPIENT :: string where
  "RECIPIENT = ''https://didcomm.org/coordinate-mediation/3.0/recipient''"

text \<open>\<^verbatim>\<open>DIDCommMessageMediaType.ENCRYPTED\<close> is declared in a module that is not among the
  sources; its value is the DIDComm media type of an encrypted envelope.\<close>

definition ENCRYPTED :: string where
  "ENCRYPTED = ''application/didcomm-encrypted+json''"

definition createMediateRequestMessage :: "agent_context \<Rightarrow> string \<Rightarrow> string \<Rightarrow> didcomm_message" where
  "createMediateRequestMessage ctx recipientDidUrl mediatorDidUrl =
     \<lparr>dc_type = MEDIATE_REQUEST, dc_from = Some recipientDidUrl, dc_to = Some mediatorDidUrl,
      dc_id = v4 ctx, dc_thid = None, dc_created_time = Some (now ctx),
      dc_body = Some empty_body, dc_return_route = None\<rparr>"

definition createMediateGrantMessage ::
  "agent_context \<Rightarrow> string \<Rightarrow> string \<Rightarrow> string \<Rightarrow> didcomm_message" where
  "createMediateGrantMessage ctx recipientDidUrl mediatorDidUrl thid =
     \<lparr>dc_type = MEDIATE_GRANT, dc_from = Some mediatorDidUrl, dc_to = Some recipientDidUrl,
      dc_id = v4 ctx, dc_thid = Some thid, dc_created_time = Some (now ctx),
      dc_body = Some \<lparr>routing_did = Some [mediatorDidUrl], updates = Undefined\<rparr>,
      dc_return_route = None\<rparr>"

definition createRecipientUpdateMessage ::
  "agent_context \<Rightarrow> string \<Rightarrow> string \<Rightarrow> update list \<Rightarrow> didcomm_message" where
  "createRecipientUpdateMessage ctx recipientDidUrl mediatorDidUrl us =
     \<lparr>dc_type = RECIPIENT_UPDATE, dc_from = Some recipientDidUrl, dc_to = Some mediatorDidUrl,
      dc_id = v4 ctx, dc_thid = None, dc_created_time = Some (now ctx),
      dc_body = Some \<lparr>routing_did = None, updates = Defined us\<rparr>,
      dc_return_route = Some ''all''\<rparr>"

text \<open>\<^verbatim>\<open>!x\<close> on an optional string: true for \<^verbatim>\<open>undefined\<close> and for the empty string.\<close>

definition unset :: "string option \<Rightarrow> bool" where
  "unset x = (case x of None \<Rightarrow> True | Some v \<Rightarrow> v = [])"

text \<open>\<^verbatim>\<open>message.addMetaData\<close> appends one entry to the message's meta data.\<close>

definition addMetaData :: "meta_data \<Rightarrow> message \<Rightarrow> message" where
  "addMetaData md m = m\<lparr>msg_metaData := msg_metaData m @ [md]\<rparr>"

subsection \<open>The DataStore plugin\<close>

text \<open>The methods the class \<^verbatim>\<open>DataStore\<close> implements, and the map from method name to method
  its constructor builds: the agent dispatches a call by looking the name up in this map.\<close>

datatype data_store_method =
    SaveMessage | GetMessage | DeleteMessage
  | DeleteVerifiableCredential | SaveVerifiableCredential | GetVerifiableCredential
  | SaveVerifiablePresentation | GetVerifiablePresentation

definition DataStore_methods :: "(string \<times> data_store_method) list" where
  "DataStore_methods =
     [(''dataStoreSaveMessage'', SaveMessage),
      (''dataStoreGetMessage'', GetMessage),
      (''dataStoreDeleteMessage'', DeleteMessage),
      (''dataStoreDeleteVerifiableCredential'', DeleteVerifiableCredential),
      (''dataStoreSaveVerifiableCredential'', SaveVerifiableCredential),
      (''dataStoreGetVerifiableCredential'', GetVerifiableCredential),
      (''dataStoreSaveVerifiablePresentation'', SaveVerifiablePresentation),
      (''dataStoreGetVerifiablePresentation'', GetVerifiablePresentation)]"

definition DataStore_method :: "string \<Rightarrow> data_store_method option" where
  "DataStore_method name = map_of DataStore_methods name"

text \<open>\<^verbatim>\<open>dataStoreSaveMessage\<close> saves the message under its id and returns the id;
  \<^verbatim>\<open>dataStoreGetMessage\<close> throws \<^verbatim>\<open>not_found\<close> when no message has the id. The conversions
  between a message and its database entity are not among the sources; they keep the
  properties modelled here. The repository's \<^verbatim>\<open>save\<close> of a message whose id is already stored
  writes the properties the new message defines and keeps the stored value of those it leaves
  undefined (\<open>None\<close>, or no meta data).\<close>

definition keep_undefined :: "message \<Rightarrow> message \<Rightarrow> message" where
  "keep_undefined old m =
     \<lparr>msg_type = msg_type m,
      msg_from = (case msg_from m of None \<Rightarrow> msg_from old | Some v \<Rightarrow> Some v),
      msg_to = (case msg_to m of None \<Rightarrow> msg_to old | Some v \<Rightarrow> Some v),
      msg_id = msg_id m,
      msg_threadId = (case msg_threadId m of None \<Rightarrow> msg_threadId old | Some v \<Rightarrow> Some v),
      msg_data = (case msg_data m of None \<Rightarrow> msg_data old | Some v \<Rightarrow> Some v),
      msg_body = (case msg_body m of None \<Rightarrow> msg_body old | Some v \<Rightarrow> Some v),
      msg_createdAt = (case msg_createdAt m of None \<Rightarrow> msg_createdAt old | Some v \<Rightarrow> Some v),
      msg_metaData = (if msg_metaData m = [] then msg_metaData old else msg_metaData m)\<rparr>"

definition dataStoreSaveMessage :: "message \<Rightarrow> agent_state \<Rightarrow> string \<times> agent_state" where
  "dataStoreSaveMessage m s =
     (msg_id m,
      s\<lparr>messages := (messages s)(msg_id m \<mapsto>
           (case messages s (msg_id m) of None \<Rightarrow> m | Some old \<Rightarrow> keep_undefined old m))\<rparr>)"

definition dataStoreGetMessage :: "string \<Rightarrow> agent_state \<Rightarrow> error + message" where
  "dataStoreGetMessage i s =
     (case messages s i of
        None \<Rightarrow> Inl (NotFound ''not_found: Message not found'')
      | Some m \<Rightarrow> Inr m)"

subsection \<open>Collaborators outside the sources\<close>

text \<open>Modelled from the spec: \<^verbatim>\<open>didManagerGet\<close> of the DID manager, which is not among the
  sources. The spec gives \<^verbatim>\<open>getDidDocument(did)\<close>; the identifier of a managed DID comes with
  its services, and the call rejects for a DID the agent does not manage.\<close>

definition didManagerGet :: "string \<Rightarrow> agent_state \<Rightarrow> error + IIdentifier" where
  "didManagerGet d s =
     (case identifiers s d of
        None \<Rightarrow> Inl (NotFound ''Identifier not found'')
      | Some svs \<Rightarrow> Inr \<lparr>did = d, services = svs\<rparr>)"

text \<open>Modelled from the spec: the upsert of a service entry, which the spec's
  \<^verbatim>\<open>addService(did, service)\<close> performs: an entry with the same id is replaced, a new one is
  appended.\<close>

definition upsert_service :: "service \<Rightarrow> service list \<Rightarrow> service list" where
  "upsert_service sv svs =
     (if service_id sv \<in> set (map service_id svs)
      then map (\<lambda>x. if service_id x = service_id sv then sv else x) svs
      else svs @ [sv])"

text \<open>Modelled from the spec: \<^verbatim>\<open>didManagerAddService\<close> of the DID manager, which is not among
  the sources: the spec's \<^verbatim>\<open>addService(did, service)\<close>, rejecting for a DID the agent does not
  manage.\<close>

definition didManagerAddService :: "string \<Rightarrow> service \<Rightarrow> agent_state \<Rightarrow> unit outcome" where
  "didManagerAddService d sv s =
     (case identifiers s d of
        None \<Rightarrow> (Inl (NotFound ''Identifier not found''), s)
      | Some svs \<Rightarrow> (Inr (), s\<lparr>identifiers := (identifiers s)(d \<mapsto> upsert_service sv svs)\<rparr>))"

text \<open>Modelled from the spec: \<^verbatim>\<open>didManagerRemoveService\<close> of the DID manager, which is not
  among the sources: the spec's \<^verbatim>\<open>removeService(did, serviceId)\<close>, rejecting for a DID the
  agent does not manage.\<close>

definition didManagerRemoveService :: "string \<Rightarrow> string \<Rightarrow> agent_state \<Rightarrow> unit outcome" where
  "didManagerRemoveService d i s =
     (case identifiers s d of
        None \<Rightarrow> (Inl (NotFound ''Identifier not found''), s)
      | Some svs \<Rightarrow>
          (Inr (), s\<lparr>identifiers := (identifiers s)(d \<mapsto> filter (\<lambda>x. service_id x \<noteq> i) svs)\<rparr>))"

text \<open>Modelled from the spec: the resolved DID document of a managed identifier, which is not
  among the sources. The spec and the test suite name the mediator service of the document
  \<^verbatim>\<open><did>#didcomm-mediator\<close>: a service appears in the document under its DID-qualified id.\<close>

definition didDocument_service :: "string \<Rightarrow> agent_state \<Rightarrow> service list" where
  "didDocument_service d s =
     (case identifiers s d of
        None \<Rightarrow> []
      | Some svs \<Rightarrow> map (\<lambda>x. x\<lparr>service_id := d @ ''#'' @ service_id x\<rparr>) svs)"

text \<open>Modelled from the spec: \<^verbatim>\<open>dataStoreAddRecipientDid\<close>, which is commented out in
  \<^verbatim>\<open>DataStore\<close> and registered by no plugin of the sources. The spec gives
  \<^verbatim>\<open>addRecipientDid(did, recipient_did) -> bool(inserted)\<close> over a set of unique pairs.\<close>

definition dataStoreAddRecipientDid :: "string \<Rightarrow> string \<Rightarrow> agent_state \<Rightarrow> bool \<times> agent_state" where
  "dataStoreAddRecipientDid recipient rd s =
     ((recipient, rd) \<notin> recipient_dids s,
      s\<lparr>recipient_dids := insert (recipient, rd) (recipient_dids s)\<rparr>)"

text \<open>Modelled from the spec: \<^verbatim>\<open>dataStoreRemoveRecipientDid\<close>, which is commented out in
  \<^verbatim>\<open>DataStore\<close> and registered by no plugin of the sources. The spec gives
  \<^verbatim>\<open>removeRecipientDid(did, recipient_did) -> bool(deleted)\<close> over the same set.\<close>

definition dataStoreRemoveRecipientDid :: "string \<Rightarrow> string \<Rightarrow> agent_state \<Rightarrow> bool \<times> agent_state" where
  "dataStoreRemoveRecipientDid recipient rd s =
     ((recipient, rd) \<in> recipient_dids s,
      s\<lparr>recipient_dids := recipient_dids s - {(recipient, rd)}\<rparr>)"

section \<open>The mediator role\<close>

text \<open>\<^verbatim>\<open>handleMediateRequest\<close>: both checks, then a grant for every requester. The response is
  packed, attached to the inbound message as \<^verbatim>\<open>ReturnRouteResponse\<close> meta data, and saved in
  the message repository.\<close>

definition handleMediateRequest :: "agent_context \<Rightarrow> message \<Rightarrow> agent_state \<Rightarrow> message outcome" where
  "handleMediateRequest ctx m s =
     (if unset (msg_from m) then
        (Inl (InvalidArgument ''invalid_argument: MediateRequest received without `from` set''), s)
      else if unset (msg_to m) then
        (Inl (InvalidArgument ''invalid_argument: MediateRequest received without `to` set''), s)
      else
        (let response =
               createMediateGrantMessage ctx (the (msg_from m)) (the (msg_to m)) (msg_id m)
         in case packDIDCommMessage ctx response of
              None \<Rightarrow> (Inl (Fault ''packDIDCommMessage''), s)
            | Some packedResponse \<Rightarrow>
                (let returnResponse =
                       ReturnRouteResponseJson (dc_id response) packedResponse ENCRYPTED;
                     m' = addMetaData
                            \<lparr>md_type = ''ReturnRouteResponse'', md_value = returnResponse\<rparr> m;
                     saved = dataStoreSaveMessage
                            \<lparr>msg_type = dc_type response, msg_from = dc_from response,
                             msg_to = dc_to response, msg_id = dc_id response,
                             msg_threadId = dc_thid response, msg_data = dc_body response,
                             msg_body = None, msg_createdAt = dc_created_time response,
                             msg_metaData = []\<rparr> s
                 in (Inr m', snd saved))))"

text \<open>The \<^verbatim>\<open>updater\<close> object of \<^verbatim>\<open>handleRecipientUpdate\<close>: each method calls the store and turns
  its answer into the result code of the entry.\<close>

definition updater_add :: "IIdentifier \<Rightarrow> update \<Rightarrow> agent_state \<Rightarrow> update_result \<times> agent_state" where
  "updater_add didDoc u s =
     (let r = dataStoreAddRecipientDid (did didDoc) (recipient_did u) s
      in if fst r
         then (\<lparr>recipient_did = recipient_did u, action = action u, result = success\<rparr>, snd r)
         else (\<lparr>recipient_did = recipient_did u, action = action u, result = no_change\<rparr>, snd r))"

definition updater_remove :: "IIdentifier \<Rightarrow> update \<Rightarrow> agent_state \<Rightarrow> update_result \<times> agent_state" where
  "updater_remove didDoc u s =
     (let r = dataStoreRemoveRecipientDid (did didDoc) (recipient_did u) s
      in if fst r
         then (\<lparr>recipient_did = recipient_did u, action = action u, result = success\<rparr>, snd r)
         else (\<lparr>recipient_did = recipient_did u, action = action u, result = no_change\<rparr>, snd r))"

definition updater :: "IIdentifier \<Rightarrow> update \<Rightarrow> agent_state \<Rightarrow> update_result \<times> agent_state" where
  "updater didDoc u s =
     (case action u of Add \<Rightarrow> updater_add didDoc u s | Remove \<Rightarrow> updater_remove didDoc u s)"

text \<open>\<^verbatim>\<open>updates.map(async (update) => await updater[update.action](didDoc, update))\<close>: the store
  calls are issued in the order of the entries. \<open>appliedUpdates\<close> is what they do to the state
  once they complete, in that order, and what the promises resolve to.\<close>

fun appliedUpdates ::
  "IIdentifier \<Rightarrow> update list \<Rightarrow> agent_state \<Rightarrow> update_result list \<times> agent_state" where
  "appliedUpdates didDoc [] s = ([], s)"
| "appliedUpdates didDoc (u # us) s =
     (let r = updater didDoc u s; rest = appliedUpdates didDoc us (snd r)
      in (fst r # fst rest, snd rest))"

text \<open>\<^verbatim>\<open>handleRecipientUpdate\<close>: the destructuring of \<^verbatim>\<open>body\<close>, which throws when the message has
  none and fills \<^verbatim>\<open>updates = []\<close> in for an undefined \<^verbatim>\<open>updates\<close> only; the three checks, the last
  of which reads \<^verbatim>\<open>updates.length\<close> and so throws for \<^verbatim>\<open>null\<close>; the identifier; the updates. The
  promises of \<^verbatim>\<open>updates.map\<close> are bound to \<^verbatim>\<open>appliedUpdates\<close> and neither awaited nor read: the
  calls are started, and the inbound message is returned as it came.\<close>

definition handleRecipientUpdate :: "agent_context \<Rightarrow> message \<Rightarrow> agent_state \<Rightarrow> message outcome" where
  "handleRecipientUpdate ctx m s =
     (case msg_body m of
        None \<Rightarrow> (Inl (TypeError ''Cannot destructure property updates of message.body''), s)
      | Some b \<Rightarrow>
          (let us = (case updates b of Undefined \<Rightarrow> Defined [] | Null \<Rightarrow> Null | Defined v \<Rightarrow> Defined v)
           in if unset (msg_from m) then
                (Inl (InvalidArgument
                   ''invalid_argument: MediateRecipientUpdate received without `from` set''), s)
              else if unset (msg_to m) then
                (Inl (InvalidArgument
                   ''invalid_argument: MediateRecipientUpdate received without `to` set''), s)
              else
                (case us of
                   Defined [] \<Rightarrow>
                     (Inl (InvalidArgument
                        ''invalid_argument: MediateRecipientUpdate received without `updates` set''),
                      s)
                 | Defined (u # rest) \<Rightarrow>
                     (case didManagerGet (the (msg_from m)) s of
                        Inl ex \<Rightarrow> (Inl ex, s)
                      | Inr didDoc \<Rightarrow>
                          (Inr m, s\<lparr>started := started s @ [(didDoc, u # rest)]\<rparr>))
                 | _ \<Rightarrow>
                     (Inl (TypeError ''Cannot read properties of null (reading length)''), s))))"

text \<open>\<^verbatim>\<open>handle\<close> of the mediator role. \<open>super_handle\<close> is \<^verbatim>\<open>super.handle\<close>, the rest of the
  chain. An exception of either operation is caught, printed by \<^verbatim>\<open>debug\<close>, and the inbound
  message goes to \<^verbatim>\<open>super.handle\<close>.\<close>

definition mediator_handle ::
  "handler \<Rightarrow> agent_context \<Rightarrow> message \<Rightarrow> agent_state \<Rightarrow> message outcome" where
  "mediator_handle super_handle ctx m s =
     (if msg_type m = MEDIATE_REQUEST then
        (case handleMediateRequest ctx m s of
           (Inr m', s') \<Rightarrow> (Inr m', s')
         | (Inl ex, s') \<Rightarrow> super_handle m (s'\<lparr>debug_log := debug_log s' @ [ex]\<rparr>))
      else if msg_type m = RECIPIENT_UPDATE then
        (case handleRecipientUpdate ctx m s of
           (Inr m', s') \<Rightarrow> (Inr m', s')
         | (Inl ex, s') \<Rightarrow> super_handle m (s'\<lparr>debug_log := debug_log s' @ [ex]\<rparr>))
      else super_handle m s)"

section \<open>The recipient role\<close>

text \<open>The body of the \<^verbatim>\<open>try\<close> block for a \<^verbatim>\<open>mediate-grant\<close>: the four checks, the look-up of the
  message the grant's thread id names, and, when that message went from the grant's \<^verbatim>\<open>to\<close>
  to the grant's \<^verbatim>\<open>from\<close>, the new service and the meta data entry.\<close>

definition mediator_service :: "string \<Rightarrow> service" where
  "mediator_service uri =
     \<lparr>service_id = ''didcomm-mediator'', service_type = ''DIDCommMessaging'',
      serviceEndpoint = Many [UriObj uri]\<rparr>"

definition handleMediateGrant :: "message \<Rightarrow> agent_state \<Rightarrow> message outcome" where
  "handleMediateGrant m s =
     (if unset (msg_from m) then
        (Inl (InvalidArgument ''invalid_argument: MediateGrant received without `from` set''), s)
      else if unset (msg_to m) then
        (Inl (InvalidArgument ''invalid_argument: MediateGrant received without `to` set''), s)
      else if unset (msg_threadId m) then
        (Inl (InvalidArgument ''invalid_argument: MediateGrant received without `thid` set''), s)
      else
        (case msg_data m of
           None \<Rightarrow> (Inl (TypeError ''Cannot read properties of null (reading routing_did)''), s)
         | Some d \<Rightarrow>
             (case routing_did d of
                None \<Rightarrow>
                  (Inl (InvalidArgument
                     ''invalid_argument: MediateGrant received with invalid routing_did''), s)
              | Some [] \<Rightarrow>
                  (Inl (InvalidArgument
                     ''invalid_argument: MediateGrant received with invalid routing_did''), s)
              | Some (r # rs) \<Rightarrow>
                  (case dataStoreGetMessage (the (msg_threadId m)) s of
                     Inl ex \<Rightarrow> (Inl ex, s)
                   | Inr prevRequestMsg \<Rightarrow>
                       if msg_from prevRequestMsg = msg_to m \<and> msg_to prevRequestMsg = msg_from m
                       then
                         (case didManagerAddService (the (msg_to m)) (mediator_service r) s of
                            (Inl ex, s') \<Rightarrow> (Inl ex, s')
                          | (Inr u, s') \<Rightarrow>
                              (Inr (addMetaData
                                      \<lparr>md_type = ''DIDCommMessagingServiceAdded'',
                                       md_value = ServiceJson (mediator_service r)\<rparr> m), s'))
                       else (Inr m, s)))))"

text \<open>The test of \<^verbatim>\<open>find\<close> in the \<^verbatim>\<open>mediate-deny\<close> branch: the endpoint is the string \<^verbatim>\<open>from\<close>,
  or an array that holds the string \<^verbatim>\<open>from\<close> (\<^verbatim>\<open>includes\<close> compares with strict equality, so
  an object \<^verbatim>\<open>{uri: from}\<close> in the array is not the string).\<close>

definition endpoint_is :: "string \<Rightarrow> service \<Rightarrow> bool" where
  "endpoint_is f sv =
     (case serviceEndpoint sv of
        Single e \<Rightarrow> e = Str f
      | Many es \<Rightarrow> Str f \<in> set es)"

definition handleMediateDeny :: "message \<Rightarrow> agent_state \<Rightarrow> unit outcome" where
  "handleMediateDeny m s =
     (if unset (msg_from m) then
        (Inl (InvalidArgument ''invalid_argument: MediateGrant received without `from` set''), s)
      else if unset (msg_to m) then
        (Inl (InvalidArgument ''invalid_argument: MediateGrant received without `to` set''), s)
      else
        (case didManagerGet (the (msg_to m)) s of
           Inl ex \<Rightarrow> (Inl ex, s)
         | Inr d \<Rightarrow>
             (case find (endpoint_is (the (msg_from m))) (services d) of
                None \<Rightarrow> (Inr (), s)
              | Some existingService \<Rightarrow>
                  didManagerRemoveService (the (msg_to m)) (service_id existingService) s)))"

text \<open>\<^verbatim>\<open>handle\<close> of the recipient role. A \<^verbatim>\<open>mediate-grant\<close> is returned to the caller, changed or
  not; a \<^verbatim>\<open>mediate-deny\<close> and every other message go on to \<^verbatim>\<open>super.handle\<close>. Each branch
  catches what its \<^verbatim>\<open>try\<close> block throws and prints it with \<^verbatim>\<open>debug\<close>.\<close>

definition recipient_handle :: "handler \<Rightarrow> message \<Rightarrow> agent_state \<Rightarrow> message outcome" where
  "recipient_handle super_handle m s =
     (if msg_type m = MEDIATE_GRANT then
        (case handleMediateGrant m s of
           (Inr m', s') \<Rightarrow> (Inr m', s')
         | (Inl ex, s') \<Rightarrow> (Inr m, s'\<lparr>debug_log := debug_log s' @ [ex]\<rparr>))
      else if msg_type m = MEDIATE_DENY then
        (case handleMediateDeny m s of
           (Inr u, s') \<Rightarrow> super_handle m s'
         | (Inl ex, s') \<Rightarrow> super_handle m (s'\<lparr>debug_log := debug_log s' @ [ex]\<rparr>))
      else super_handle m s)"

section \<open>Correlation and sample inputs\<close>

text \<open>A grant is correlated in a state when the message its thread id names is stored and
  went from the grant's \<^verbatim>\<open>to\<close> to the grant's \<^verbatim>\<open>from\<close>.\<close>

definition correlated :: "agent_state \<Rightarrow> message \<Rightarrow> bool" where
  "correlated s m =
     (case msg_threadId m of
        None \<Rightarrow> False
      | Some t \<Rightarrow>
          (case messages s t of
             None \<Rightarrow> False
           | Some p \<Rightarrow> msg_from p = msg_to m \<and> msg_to p = msg_from m))"

text \<open>The payload preconditions of the spec: a recipient-update carries a non-empty array
  \<^verbatim>\<open>body.updates\<close>, a grant carries a non-empty \<^verbatim>\<open>routing_did\<close>.\<close>

definition has_updates :: "message \<Rightarrow> bool" where
  "has_updates m =
     (case msg_body m of
        None \<Rightarrow> False
      | Some b \<Rightarrow> (case updates b of Defined (u # rest) \<Rightarrow> True | _ \<Rightarrow> False))"

definition has_routing_did :: "message \<Rightarrow> bool" where
  "has_routing_did m =
     (case msg_data m of
        None \<Rightarrow> False
      | Some d \<Rightarrow> (case routing_did d of Some (r # rest) \<Rightarrow> True | _ \<Rightarrow> False))"

text \<open>An agent that manages a recipient and a mediator identifier and has stored nothing, a
  context whose gateway packs every message, the end of a handler chain that hands the
  message back, and a message with no property set.\<close>

definition ctx0 :: agent_context where
  "ctx0 = \<lparr>packDIDCommMessage = (\<lambda>r. Some (''packed:'' @ dc_id r)), v4 = ''response-1'',
           now = ''2024-01-01T00:00:00.000Z'', isMediateDefaultGrantAll = True\<rparr>"

definition st0 :: agent_state where
  "st0 = \<lparr>messages = Map.empty,
          identifiers = [''did:fake:recipient'' \<mapsto> [], ''did:fake:mediator'' \<mapsto> []],
          recipient_dids = {}, started = [], policies = Map.empty, mediations = Map.empty,
          debug_log = []\<rparr>"

definition end_of_chain :: handler where
  "end_of_chain m s = (Inr m, s)"

definition blank :: message where
  "blank = \<lparr>msg_type = [], msg_from = None, msg_to = None, msg_id = [], msg_threadId = None,
            msg_data = None, msg_body = None, msg_createdAt = None, msg_metaData = []\<rparr>"

definition request0 :: message where
  "request0 = blank\<lparr>msg_type := MEDIATE_REQUEST, msg_from := Some ''did:fake:recipient'',
                    msg_to := Some ''did:fake:mediator'', msg_id := ''request-1'',
                    msg_data := Some empty_body\<rparr>"

definition grant0 :: message where
  "grant0 = blank\<lparr>msg_type := MEDIATE_GRANT, msg_from := Some ''did:fake:mediator'',
                  msg_to := Some ''did:fake:recipient'', msg_id := ''grant-1'',
                  msg_threadId := Some ''request-1'',
                  msg_data := Some \<lparr>routing_did = Some [''did:fake:mediator''], updates = Undefined\<rparr>\<rparr>"

definition deny0 :: message where
  "deny0 = blank\<lparr>msg_type := MEDIATE_DENY, msg_from := Some ''did:fake:mediator'',
                 msg_to := Some ''did:fake:recipient'', msg_id := ''deny-1'',
                 msg_data := Some empty_body\<rparr>"

definition bad_grant :: message where
  "bad_grant = grant0\<lparr>msg_threadId := None\<rparr>"

definition update0 :: message where
  "update0 = blank\<lparr>msg_type := RECIPIENT_UPDATE, msg_from := Some ''did:fake:recipient'',
                   msg_to := Some ''did:fake:mediator'', msg_id := ''update-1'',
                   msg_body := Some \<lparr>routing_did = None,
                      updates = Defined [\<lparr>recipient_did = ''did:fake:A'', action = Add\<rparr>,
                                      \<lparr>recipient_did = ''did:fake:B'', action = Add\<rparr>]\<rparr>\<rparr>"

text \<open>The same update as the handler chain delivers it: the payload is the message's \<^verbatim>\<open>data\<close>,
  and the message has no property \<^verbatim>\<open>body\<close>.\<close>

definition chain_update0 :: message where
  "chain_update0 = update0\<lparr>msg_data := msg_body update0, msg_body := None\<rparr>"

text \<open>A next handler that rejects every message, as the last handler of a chain may.\<close>

definition unsupported_message_type :: handler where
  "unsupported_message_type m s = (Inl (Fault ''Unsupported message type''), s)"

lemmas samples =
  ctx0_def st0_def end_of_chain_def blank_def request0_def grant0_def deny0_def empty_body_def
  bad_grant_def update0_def chain_update0_def unsupported_message_type_def

lemmas message_types =
  MEDIATE_REQUEST_def MEDIATE_GRANT_def MEDIATE_DENY_def RECIPIENT_UPDATE_def RECIPIENT_def

section \<open>The DataStore plugin's method map\<close>

text \<open>C10. The method map the constructor of \<^verbatim>\<open>DataStore\<close> builds registers the eight message,
  credential and presentation operations, in this order, and none of
  \<^verbatim>\<open>dataStoreAddRecipientDid\<close>, \<^verbatim>\<open>dataStoreRemoveRecipientDid\<close>, \<^verbatim>\<open>dataStoreListRecipientDids\<close>:
  a look-up of each of the three names finds no method.\<close>

theorem DataStore_registers_eight_methods:
  "map fst DataStore_methods =
     [''dataStoreSaveMessage'', ''dataStoreGetMessage'', ''dataStoreDeleteMessage'',
      ''dataStoreDeleteVerifiableCredential'', ''dataStoreSaveVerifiableCredential'',
      ''dataStoreGetVerifiableCredential'', ''dataStoreSaveVerifiablePresentation'',
      ''dataStoreGetVerifiablePresentation'']
   \<and> DataStore_method ''dataStoreAddRecipientDid'' = None
   \<and> DataStore_method ''dataStoreRemoveRecipientDid'' = None
   \<and> DataStore_method ''dataStoreListRecipientDids'' = None"
  by (simp add: DataStore_methods_def DataStore_method_def)

section \<open>The recipient role: grants that answer no request\<close>

lemma handleMediateGrant_uncorrelated:
  assumes "\<not> correlated s m"
  shows "identifiers (snd (handleMediateGrant m s)) = identifiers s"
  using assms
  by (auto simp: handleMediateGrant_def correlated_def dataStoreGetMessage_def unset_def
      split: option.splits list.splits sum.splits prod.splits if_splits)

lemma recipient_handle_grant_identifiers:
  assumes "msg_type m = MEDIATE_GRANT"
  shows "identifiers (snd (recipient_handle super_handle m s))
           = identifiers (snd (handleMediateGrant m s))"
proof (cases "handleMediateGrant m s")
  case (Pair r s')
  with assms show ?thesis
    by (cases r) (simp_all add: recipient_handle_def)
qed

text \<open>C5. When the recipient handler processes a \<^verbatim>\<open>mediate-grant\<close> that is not correlated (its
  thread id is missing or names no stored message, or the stored message did not go from the
  grant's \<^verbatim>\<open>to\<close> to the grant's \<^verbatim>\<open>from\<close>), the services of every managed identifier, and so
  every DID document, are what they were: no service is added.\<close>

theorem uncorrelated_grant_keeps_did_document:
  assumes "msg_type m = MEDIATE_GRANT" and "\<not> correlated s m"
  shows "identifiers (snd (recipient_handle super_handle m s)) = identifiers s
         \<and> didDocument_service d (snd (recipient_handle super_handle m s))
             = didDocument_service d s"
proof -
  have "identifiers (snd (recipient_handle super_handle m s)) = identifiers s"
    using recipient_handle_grant_identifiers [OF assms(1)]
      handleMediateGrant_uncorrelated [OF assms(2)] by simp
  then show ?thesis
    by (simp add: didDocument_service_def)
qed

text \<open>A grant whose thread id names a request that the sample agent never stored: the
  services are the same afterwards.\<close>

theorem uncorrelated_grant_keeps_did_document_witness:
  "msg_type grant0 = MEDIATE_GRANT \<and> \<not> correlated st0 grant0
   \<and> identifiers (snd (recipient_handle end_of_chain grant0 st0)) = identifiers st0
   \<and> didDocument_service ''did:fake:recipient'' (snd (recipient_handle end_of_chain grant0 st0))
       = didDocument_service ''did:fake:recipient'' st0"
proof -
  have t: "msg_type grant0 = MEDIATE_GRANT"
    by (simp add: grant0_def blank_def)
  have u: "\<not> correlated st0 grant0"
    by (simp add: correlated_def grant0_def blank_def st0_def)
  show ?thesis
    using t u uncorrelated_grant_keeps_did_document [OF t u] by simp
qed

section \<open>The mediator role: preconditions\<close>

lemma handleMediateRequest_invalid:
  "(\<exists>e. fst (handleMediateRequest ctx m s) = Inl (InvalidArgument e))
     \<longleftrightarrow> unset (msg_from m) \<or> unset (msg_to m)"
  by (auto simp: handleMediateRequest_def Let_def split: option.splits)

lemma handleRecipientUpdate_invalid:
  assumes "msg_body m = Some b"
  shows "(\<exists>e. fst (handleRecipientUpdate ctx m s) = Inl (InvalidArgument e))
     \<longleftrightarrow> unset (msg_from m) \<or> unset (msg_to m)
          \<or> updates b = Undefined \<or> updates b = Defined []"
  using assms
  by (auto simp: handleRecipientUpdate_def didManagerGet_def Let_def
      split: option.splits sum.splits property.splits list.splits)

text \<open>C8. What \<^verbatim>\<open>handleRecipientUpdate\<close> does with a recipient-update as the handler chain
  delivers it, with the payload in \<^verbatim>\<open>data\<close> and no \<^verbatim>\<open>body\<close>: it fails at the destructuring of
  \<^verbatim>\<open>body\<close>, before any of its three tests, with a \<^verbatim>\<open>TypeError\<close>. So it does for an empty
  \<^verbatim>\<open>updates\<close> and for a missing \<^verbatim>\<open>from\<close>, where the claim expects an \<^verbatim>\<open>invalid_argument\<close> error;
  \<^verbatim>\<open>handleMediateRequest\<close> on a request without \<^verbatim>\<open>from\<close> raises \<^verbatim>\<open>invalid_argument\<close> as
  claimed.\<close>

theorem update_without_body_is_type_error:
  "msg_body (chain_update0\<lparr>msg_data := Some \<lparr>routing_did = None, updates = Defined []\<rparr>\<rparr>)
     = None
   \<and> fst (handleRecipientUpdate ctx0
            (chain_update0\<lparr>msg_data := Some \<lparr>routing_did = None, updates = Defined []\<rparr>\<rparr>)
            st0)
       = Inl (TypeError ''Cannot destructure property updates of message.body'')
   \<and> msg_from (chain_update0\<lparr>msg_from := None\<rparr>) = None
   \<and> fst (handleRecipientUpdate ctx0 (chain_update0\<lparr>msg_from := None\<rparr>) st0)
       = Inl (TypeError ''Cannot destructure property updates of message.body'')
   \<and> fst (handleMediateRequest ctx0 (request0\<lparr>msg_from := None\<rparr>) st0)
       = Inl (InvalidArgument
            ''invalid_argument: MediateRequest received without `from` set'')"
  by (simp add: samples handleRecipientUpdate_def handleMediateRequest_def unset_def)

text \<open>What the tests of the two operations do where they are reached.
  \<^verbatim>\<open>handleMediateRequest\<close> fails with an \<^verbatim>\<open>invalid_argument\<close> error exactly when \<^verbatim>\<open>from\<close> or \<^verbatim>\<open>to\<close>
  is not set. \<^verbatim>\<open>handleRecipientUpdate\<close>, on a message that carries a \<^verbatim>\<open>body\<close>, fails with an
  \<^verbatim>\<open>invalid_argument\<close> error exactly when \<^verbatim>\<open>from\<close> or \<^verbatim>\<open>to\<close> is not set or \<^verbatim>\<open>body.updates\<close> is
  undefined or an empty array. Not set is the code's \<^verbatim>\<open>!x\<close>: an absent property, or the empty
  string.\<close>

theorem invalid_argument_iff_precondition_fails:
  "((\<exists>e. fst (handleMediateRequest ctx m s) = Inl (InvalidArgument e))
      \<longleftrightarrow> unset (msg_from m) \<or> unset (msg_to m))
   \<and> (msg_body m = Some b \<longrightarrow>
        ((\<exists>e. fst (handleRecipientUpdate ctx m s) = Inl (InvalidArgument e))
          \<longleftrightarrow> unset (msg_from m) \<or> unset (msg_to m)
               \<or> updates b = Undefined \<or> updates b = Defined []))
   \<and> unset None \<and> (\<forall>v. unset (Some v) \<longleftrightarrow> v = [])"
  using handleMediateRequest_invalid handleRecipientUpdate_invalid
  by (simp add: unset_def)

text \<open>A request without \<^verbatim>\<open>from\<close> and an update with an empty body fail; an update whose
  \<^verbatim>\<open>updates\<close> is \<^verbatim>\<open>null\<close> fails with \<^verbatim>\<open>invalid_argument\<close> when \<^verbatim>\<open>from\<close> is missing and not
  otherwise; the sample request and the sample update, which meet the preconditions, do not
  fail.\<close>

theorem invalid_argument_iff_precondition_fails_witness:
  "(\<exists>e. fst (handleMediateRequest ctx0 (request0\<lparr>msg_from := None\<rparr>) st0)
          = Inl (InvalidArgument e))
   \<and> \<not> (\<exists>e. fst (handleMediateRequest ctx0 request0 st0) = Inl (InvalidArgument e))
   \<and> msg_body (update0\<lparr>msg_body := Some empty_body\<rparr>) = Some empty_body
   \<and> (\<exists>e. fst (handleRecipientUpdate ctx0 (update0\<lparr>msg_body := Some empty_body\<rparr>) st0)
          = Inl (InvalidArgument e))
   \<and> (\<exists>e. fst (handleRecipientUpdate ctx0
               (update0\<lparr>msg_from := None,
                         msg_body := Some \<lparr>routing_did = None, updates = Null\<rparr>\<rparr>) st0)
          = Inl (InvalidArgument e))
   \<and> \<not> (\<exists>e. fst (handleRecipientUpdate ctx0
               (update0\<lparr>msg_body := Some \<lparr>routing_did = None, updates = Null\<rparr>\<rparr>) st0)
          = Inl (InvalidArgument e))
   \<and> \<not> (\<exists>e. fst (handleRecipientUpdate ctx0 update0 st0) = Inl (InvalidArgument e))"
  using
    invalid_argument_iff_precondition_fails
      [of ctx0 "request0\<lparr>msg_from := None\<rparr>" st0 empty_body]
    invalid_argument_iff_precondition_fails [of ctx0 request0 st0 empty_body]
    invalid_argument_iff_precondition_fails
      [of ctx0 "update0\<lparr>msg_body := Some empty_body\<rparr>" st0 empty_body]
    invalid_argument_iff_precondition_fails
      [of ctx0 "update0\<lparr>msg_from := None,
                         msg_body := Some \<lparr>routing_did = None, updates = Null\<rparr>\<rparr>" st0
          "\<lparr>routing_did = None, updates = Null\<rparr>"]
    invalid_argument_iff_precondition_fails
      [of ctx0 "update0\<lparr>msg_body := Some \<lparr>routing_did = None, updates = Null\<rparr>\<rparr>" st0
          "\<lparr>routing_did = None, updates = Null\<rparr>"]
    invalid_argument_iff_precondition_fails
      [of ctx0 update0 st0
        "\<lparr>routing_did = None,
          updates = Defined [\<lparr>recipient_did = ''did:fake:A'', action = Add\<rparr>,
                             \<lparr>recipient_did = ''did:fake:B'', action = Add\<rparr>]\<rparr>"]
  by (simp add: request0_def update0_def blank_def empty_body_def unset_def)

section \<open>The mediator role: mediate-request\<close>

text \<open>No call of \<^verbatim>\<open>handleMediateRequest\<close> reads a policy or writes a mediation record.\<close>

lemma handleMediateRequest_reads_no_policy:
  "fst (handleMediateRequest ctx m (s\<lparr>policies := p\<rparr>)) = fst (handleMediateRequest ctx m s)
   \<and> mediations (snd (handleMediateRequest ctx m s)) = mediations s"
  by (simp add: handleMediateRequest_def dataStoreSaveMessage_def Let_def split: option.splits)

text \<open>C1. What \<^verbatim>\<open>handleMediateRequest\<close> does for a requester with a stored \<^verbatim>\<open>DENY\<close> policy: the
  policy is not read. The response saved under its id is a \<^verbatim>\<open>mediate-grant\<close> (thread id the
  request's id, body naming the mediator as routing DID), the inbound message carries the
  packed grant, and no mediation record is written for the requester, where the claim
  expects a \<^verbatim>\<open>mediate-deny\<close> with a null body and the record \<^verbatim>\<open>DENIED\<close>.\<close>

theorem deny_policy_is_granted:
  "policies (st0\<lparr>policies := [''did:fake:recipient'' \<mapsto> DENY]\<rparr>) ''did:fake:recipient''
     = Some DENY
   \<and> fst (handleMediateRequest ctx0 request0
            (st0\<lparr>policies := [''did:fake:recipient'' \<mapsto> DENY]\<rparr>))
     = Inr (request0\<lparr>msg_metaData :=
          [\<lparr>md_type = ''ReturnRouteResponse'',
            md_value = ReturnRouteResponseJson ''response-1'' ''packed:response-1'' ENCRYPTED\<rparr>]\<rparr>)
   \<and> messages (snd (handleMediateRequest ctx0 request0
          (st0\<lparr>policies := [''did:fake:recipient'' \<mapsto> DENY]\<rparr>))) ''response-1''
     = Some (blank\<lparr>msg_type := MEDIATE_GRANT, msg_from := Some ''did:fake:mediator'',
           msg_to := Some ''did:fake:recipient'', msg_id := ''response-1'',
           msg_threadId := Some ''request-1'',
           msg_data := Some \<lparr>routing_did = Some [''did:fake:mediator''], updates = Undefined\<rparr>,
           msg_createdAt := Some ''2024-01-01T00:00:00.000Z''\<rparr>)
   \<and> mediations (snd (handleMediateRequest ctx0 request0
          (st0\<lparr>policies := [''did:fake:recipient'' \<mapsto> DENY]\<rparr>))) ''did:fake:recipient''
     = None"
  by (simp add: samples handleMediateRequest_def createMediateGrantMessage_def unset_def
      addMetaData_def dataStoreSaveMessage_def message_types)

text \<open>C2. What \<^verbatim>\<open>handleMediateRequest\<close> does for a requester with no policy while the
  default-grant-all flag is true: the grant it saves goes from the mediator to the requester,
  its thread id is the request's id and its body names the mediator as the one routing DID;
  but the requester has no mediation record afterwards, where the claim expects the record
  \<^verbatim>\<open>GRANTED\<close>.\<close>

theorem grant_writes_no_mediation_record:
  "policies st0 ''did:fake:recipient'' = None \<and> isMediateDefaultGrantAll ctx0
   \<and> messages (snd (handleMediateRequest ctx0 request0 st0)) ''response-1''
     = Some (blank\<lparr>msg_type := MEDIATE_GRANT, msg_from := msg_to request0,
           msg_to := msg_from request0, msg_id := ''response-1'',
           msg_threadId := Some (msg_id request0),
           msg_data := Some \<lparr>routing_did = Some [''did:fake:mediator''], updates = Undefined\<rparr>,
           msg_createdAt := Some ''2024-01-01T00:00:00.000Z''\<rparr>)
   \<and> mediations (snd (handleMediateRequest ctx0 request0 st0)) ''did:fake:recipient'' = None"
  by (simp add: samples handleMediateRequest_def createMediateGrantMessage_def unset_def
      addMetaData_def dataStoreSaveMessage_def message_types)

section \<open>The mediator role: recipient-update and recipient-query\<close>

text \<open>C3. What \<^verbatim>\<open>handleRecipientUpdate\<close> does with the two updates \<^verbatim>\<open>[A:add, B:add]\<close>: the two
  registry calls are started, which register both recipient DIDs once they complete, and the
  inbound message is returned as it came. It carries no meta data, the message repository is
  what it was, and \<^verbatim>\<open>handle\<close> returns the same: no \<^verbatim>\<open>recipient-update-response\<close> is built, packed
  or stored, where the claim expects one with a result per update. The same update as the
  chain delivers it, with no \<^verbatim>\<open>body\<close>, fails at the destructuring; \<^verbatim>\<open>handle\<close> logs the error and
  passes the message on, and again there is no response.\<close>

theorem recipient_update_builds_no_response:
  "fst (handleRecipientUpdate ctx0 update0 st0) = Inr update0
   \<and> msg_metaData update0 = []
   \<and> messages (snd (handleRecipientUpdate ctx0 update0 st0)) = messages st0
   \<and> started (snd (handleRecipientUpdate ctx0 update0 st0))
        = [(\<lparr>did = ''did:fake:recipient'', services = []\<rparr>,
            [\<lparr>recipient_did = ''did:fake:A'', action = Add\<rparr>,
             \<lparr>recipient_did = ''did:fake:B'', action = Add\<rparr>])]
   \<and> recipient_dids (snd (appliedUpdates \<lparr>did = ''did:fake:recipient'', services = []\<rparr>
            [\<lparr>recipient_did = ''did:fake:A'', action = Add\<rparr>,
             \<lparr>recipient_did = ''did:fake:B'', action = Add\<rparr>]
            (snd (handleRecipientUpdate ctx0 update0 st0))))
        = {(''did:fake:recipient'', ''did:fake:A''), (''did:fake:recipient'', ''did:fake:B'')}
   \<and> mediator_handle end_of_chain ctx0 update0 st0
        = (Inr update0, snd (handleRecipientUpdate ctx0 update0 st0))
   \<and> mediator_handle end_of_chain ctx0 chain_update0 st0
        = (Inr chain_update0,
           st0\<lparr>debug_log :=
             [TypeError ''Cannot destructure property updates of message.body'']\<rparr>)"
  by (auto simp add: samples handleRecipientUpdate_def unset_def didManagerGet_def
        updater_def updater_add_def dataStoreAddRecipientDid_def Let_def mediator_handle_def
        message_types)

text \<open>C4. What the mediator handler does with a \<^verbatim>\<open>recipient\<close> query: its \<^verbatim>\<open>handle\<close> has no branch
  for the type, so the message goes to \<^verbatim>\<open>super.handle\<close> as it came, in the state as it was;
  no response with \<^verbatim>\<open>body.dids\<close> is produced, where the claim expects the registered recipient
  DIDs of the sender.\<close>

theorem recipient_query_is_not_answered:
  "mediator_handle super_handle ctx (m\<lparr>msg_type := RECIPIENT\<rparr>) s
     = super_handle (m\<lparr>msg_type := RECIPIENT\<rparr>) s"
  by (simp add: mediator_handle_def message_types)

lemma updater_add_twice:
  assumes "action u = Add" and "(did didDoc, recipient_did u) \<notin> recipient_dids s"
  shows "map result (fst (appliedUpdates didDoc [u, u] s)) = [success, no_change]"
  using assms
  by (simp add: updater_def updater_add_def dataStoreAddRecipientDid_def Let_def)

lemma updater_remove_twice:
  assumes "action u = Remove" and "(did didDoc, recipient_did u) \<in> recipient_dids s"
  shows "map result (fst (appliedUpdates didDoc [u, u] s)) = [success, no_change]"
  using assms
  by (simp add: updater_def updater_remove_def dataStoreRemoveRecipientDid_def Let_def)

lemma updater_second_no_change:
  "result (fst (updater didDoc u (snd (updater didDoc u s)))) = no_change"
  by (cases "action u")
     (simp_all add: updater_def updater_add_def updater_remove_def
        dataStoreAddRecipientDid_def dataStoreRemoveRecipientDid_def Let_def)

text \<open>C7. The same update applied twice in a row, over the registry the spec describes: adding
  a recipient DID that is not registered gives \<^verbatim>\<open>success\<close> then \<^verbatim>\<open>no_change\<close>, removing one that
  is registered gives \<^verbatim>\<open>success\<close> then \<^verbatim>\<open>no_change\<close>, and from any registry the second of two
  equal updates gives \<^verbatim>\<open>no_change\<close>.\<close>

theorem same_update_twice:
  "(action u = Add \<and> (did didDoc, recipient_did u) \<notin> recipient_dids s \<longrightarrow>
      map result (fst (appliedUpdates didDoc [u, u] s)) = [success, no_change])
   \<and> (action u = Remove \<and> (did didDoc, recipient_did u) \<in> recipient_dids s \<longrightarrow>
      map result (fst (appliedUpdates didDoc [u, u] s)) = [success, no_change])
   \<and> result (fst (updater didDoc u (snd (updater didDoc u s)))) = no_change"
  using updater_add_twice updater_remove_twice updater_second_no_change
  by blast

text \<open>Adding \<^verbatim>\<open>A\<close> twice to the empty registry, and removing \<^verbatim>\<open>A\<close> twice from the registry that
  holds it.\<close>

theorem same_update_twice_witness:
  "(''did:fake:recipient'', ''did:fake:A'') \<notin> recipient_dids st0
   \<and> map result (fst (appliedUpdates \<lparr>did = ''did:fake:recipient'', services = []\<rparr>
        [\<lparr>recipient_did = ''did:fake:A'', action = Add\<rparr>,
         \<lparr>recipient_did = ''did:fake:A'', action = Add\<rparr>] st0)) = [success, no_change]
   \<and> (''did:fake:recipient'', ''did:fake:A'')
        \<in> recipient_dids (st0\<lparr>recipient_dids := {(''did:fake:recipient'', ''did:fake:A'')}\<rparr>)
   \<and> map result (fst (appliedUpdates \<lparr>did = ''did:fake:recipient'', services = []\<rparr>
        [\<lparr>recipient_did = ''did:fake:A'', action = Remove\<rparr>,
         \<lparr>recipient_did = ''did:fake:A'', action = Remove\<rparr>]
        (st0\<lparr>recipient_dids := {(''did:fake:recipient'', ''did:fake:A'')}\<rparr>)))
       = [success, no_change]"
  using
    same_update_twice
      [of "\<lparr>recipient_did = ''did:fake:A'', action = Add\<rparr>"
          "\<lparr>did = ''did:fake:recipient'', services = []\<rparr>" st0]
    same_update_twice
      [of "\<lparr>recipient_did = ''did:fake:A'', action = Remove\<rparr>"
          "\<lparr>did = ''did:fake:recipient'', services = []\<rparr>"
          "st0\<lparr>recipient_dids := {(''did:fake:recipient'', ''did:fake:A'')}\<rparr>"]
  by (simp add: st0_def)

section \<open>The recipient role: grant, then deny\<close>

text \<open>The service a grant installs has an array of one object as its endpoint, and the test of
  the deny branch looks for a string: it never finds that service.\<close>

lemma mediator_service_not_found: "\<not> endpoint_is f (mediator_service r)"
  by (simp add: endpoint_is_def mediator_service_def)

text \<open>C6. The recipient has stored its request \<^verbatim>\<open>request-1\<close> to the mediator. After the
  mediator's correlated grant, the recipient's DID document holds the one service
  \<^verbatim>\<open>did:fake:recipient#didcomm-mediator\<close> of type \<^verbatim>\<open>DIDCommMessaging\<close> with the endpoint
  \<^verbatim>\<open>[{uri: did:fake:mediator}]\<close>. After a \<^verbatim>\<open>mediate-deny\<close> from the same mediator the document
  still holds that service, where the claim expects it removed. A \<^verbatim>\<open>mediate-deny\<close> at an
  agent with no such service changes nothing and logs nothing.\<close>

theorem deny_leaves_granted_service:
  "didDocument_service ''did:fake:recipient''
      (snd (recipient_handle end_of_chain grant0
         (st0\<lparr>messages := [''request-1'' \<mapsto> request0]\<rparr>)))
     = [\<lparr>service_id = ''did:fake:recipient#didcomm-mediator'',
         service_type = ''DIDCommMessaging'',
         serviceEndpoint = Many [UriObj ''did:fake:mediator'']\<rparr>]
   \<and> didDocument_service ''did:fake:recipient''
      (snd (recipient_handle end_of_chain deny0
         (snd (recipient_handle end_of_chain grant0
            (st0\<lparr>messages := [''request-1'' \<mapsto> request0]\<rparr>)))))
     = [\<lparr>service_id = ''did:fake:recipient#didcomm-mediator'',
         service_type = ''DIDCommMessaging'',
         serviceEndpoint = Many [UriObj ''did:fake:mediator'']\<rparr>]
   \<and> recipient_handle end_of_chain deny0 st0 = (Inr deny0, st0)"
  by (simp add: samples recipient_handle_def handleMediateGrant_def handleMediateDeny_def
       unset_def message_types dataStoreGetMessage_def didManagerAddService_def
       didManagerGet_def didManagerRemoveService_def upsert_service_def mediator_service_def
       addMetaData_def didDocument_service_def endpoint_is_def)

section \<open>Failures at the handler boundary\<close>

lemma handleMediateRequest_failure:
  assumes "unset (msg_from m) \<or> unset (msg_to m)"
  shows "\<exists>t. handleMediateRequest ctx m s = (Inl (InvalidArgument t), s)"
  using assms by (cases "unset (msg_from m)") (simp_all add: handleMediateRequest_def)

lemma handleRecipientUpdate_failure:
  assumes "unset (msg_from m) \<or> unset (msg_to m) \<or> \<not> has_updates m"
  shows "\<exists>t. handleRecipientUpdate ctx m s = (Inl (InvalidArgument t), s)
            \<or> handleRecipientUpdate ctx m s = (Inl (TypeError t), s)"
proof (cases "msg_body m")
  case None
  then show ?thesis
    by (simp add: handleRecipientUpdate_def)
next
  case (Some b)
  show ?thesis
  proof (cases "unset (msg_from m) \<or> unset (msg_to m)")
    case True
    with Some show ?thesis
      by (cases "unset (msg_from m)") (simp_all add: handleRecipientUpdate_def Let_def)
  next
    case False
    with assms have "\<not> has_updates m" by simp
    with Some False show ?thesis
      by (cases "updates b")
         (auto simp: handleRecipientUpdate_def has_updates_def Let_def split: list.splits)
  qed
qed

lemma handleMediateDeny_failure:
  assumes "unset (msg_from m) \<or> unset (msg_to m)"
  shows "\<exists>t. handleMediateDeny m s = (Inl (InvalidArgument t), s)"
  using assms by (cases "unset (msg_from m)") (simp_all add: handleMediateDeny_def)

lemma handleMediateGrant_failure:
  assumes "unset (msg_from m) \<or> unset (msg_to m) \<or> unset (msg_threadId m)
           \<or> \<not> has_routing_did m"
  shows "\<exists>t. handleMediateGrant m s = (Inl (InvalidArgument t), s)
            \<or> handleMediateGrant m s = (Inl (TypeError t), s)"
proof (cases "unset (msg_from m) \<or> unset (msg_to m) \<or> unset (msg_threadId m)")
  case True
  then show ?thesis
    by (auto simp: handleMediateGrant_def)
next
  case False
  with assms have "\<not> has_routing_did m" by simp
  with False show ?thesis
    by (auto simp: handleMediateGrant_def has_routing_did_def
        split: option.splits list.splits)
qed

lemma mediator_request_failure:
  assumes "msg_type m = MEDIATE_REQUEST" and "unset (msg_from m) \<or> unset (msg_to m)"
  shows "\<exists>t. mediator_handle super_handle ctx m s
           = super_handle m (s\<lparr>debug_log := debug_log s @ [InvalidArgument t]\<rparr>)"
proof -
  from handleMediateRequest_failure [OF assms(2)]
  obtain t where "handleMediateRequest ctx m s = (Inl (InvalidArgument t), s)" by blast
  with assms(1) show ?thesis
    by (intro exI [of _ t]) (simp add: mediator_handle_def)
qed

lemma mediator_update_failure:
  assumes "msg_type m = RECIPIENT_UPDATE"
    and "unset (msg_from m) \<or> unset (msg_to m) \<or> \<not> has_updates m"
  shows "\<exists>t. mediator_handle super_handle ctx m s
             = super_handle m (s\<lparr>debug_log := debug_log s @ [InvalidArgument t]\<rparr>)
           \<or> mediator_handle super_handle ctx m s
             = super_handle m (s\<lparr>debug_log := debug_log s @ [TypeError t]\<rparr>)"
proof -
  from handleRecipientUpdate_failure [OF assms(2)]
  obtain t where "handleRecipientUpdate ctx m s = (Inl (InvalidArgument t), s)
                \<or> handleRecipientUpdate ctx m s = (Inl (TypeError t), s)" by blast
  with assms(1) show ?thesis
    by (intro exI [of _ t]) (auto simp: mediator_handle_def message_types)
qed

lemma recipient_deny_failure:
  assumes "msg_type m = MEDIATE_DENY" and "unset (msg_from m) \<or> unset (msg_to m)"
  shows "\<exists>t. recipient_handle super_handle m s
           = super_handle m (s\<lparr>debug_log := debug_log s @ [InvalidArgument t]\<rparr>)"
proof -
  from handleMediateDeny_failure [OF assms(2)]
  obtain t where "handleMediateDeny m s = (Inl (InvalidArgument t), s)" by blast
  with assms(1) show ?thesis
    by (intro exI [of _ t]) (simp add: recipient_handle_def message_types)
qed

lemma recipient_grant_failure:
  assumes "msg_type m = MEDIATE_GRANT"
    and "unset (msg_from m) \<or> unset (msg_to m) \<or> unset (msg_threadId m)
         \<or> \<not> has_routing_did m"
  shows "\<exists>t. recipient_handle super_handle m s
             = (Inr m, s\<lparr>debug_log := debug_log s @ [InvalidArgument t]\<rparr>)
           \<or> recipient_handle super_handle m s
             = (Inr m, s\<lparr>debug_log := debug_log s @ [TypeError t]\<rparr>)"
proof -
  from handleMediateGrant_failure [OF assms(2)]
  obtain t where "handleMediateGrant m s = (Inl (InvalidArgument t), s)
                \<or> handleMediateGrant m s = (Inl (TypeError t), s)" by blast
  with assms(1) show ?thesis
    by (intro exI [of _ t]) (auto simp: recipient_handle_def)
qed

text \<open>C9, as stated, fails for a \<^verbatim>\<open>mediate-grant\<close>: a grant without a thread id is caught and
  logged, and then returned to the caller; the next handler of the chain, which here would
  reject it, never receives it.\<close>

theorem malformed_grant_is_not_passed_on:
  "msg_type bad_grant = MEDIATE_GRANT \<and> unset (msg_threadId bad_grant)
   \<and> recipient_handle unsupported_message_type bad_grant st0
       = (Inr bad_grant, st0\<lparr>debug_log :=
            [InvalidArgument ''invalid_argument: MediateGrant received without `thid` set'']\<rparr>)
   \<and> recipient_handle unsupported_message_type bad_grant st0
       \<noteq> unsupported_message_type bad_grant (st0\<lparr>debug_log :=
            [InvalidArgument ''invalid_argument: MediateGrant received without `thid` set'']\<rparr>)"
  by (simp add: samples recipient_handle_def handleMediateGrant_def unset_def message_types)

text \<open>C9, amended. For every inbound message, a failed precondition inside a role handler does
  not leave its \<^verbatim>\<open>handle\<close>: the error it raises, an \<^verbatim>\<open>invalid_argument\<close> error or a \<^verbatim>\<open>TypeError\<close>
  of the run-time, is caught and logged, and nothing else of the state changes. The preconditions are: \<^verbatim>\<open>from\<close> and \<^verbatim>\<open>to\<close> set, for every type; a non-empty
  array \<^verbatim>\<open>body.updates\<close> for a \<^verbatim>\<open>recipient-update\<close>; a thread id and a non-empty \<^verbatim>\<open>routing_did\<close>
  for a \<^verbatim>\<open>mediate-grant\<close>. The mediator handler (for a \<^verbatim>\<open>mediate-request\<close> and a
  \<^verbatim>\<open>recipient-update\<close>) and the \<^verbatim>\<open>mediate-deny\<close> branch of the recipient handler then pass the
  unmodified message to the next handler; the \<^verbatim>\<open>mediate-grant\<close> branch of the recipient
  handler returns the unmodified message to its caller and does not pass it on.\<close>

theorem validation_failure_is_caught_and_logged:
  "(msg_type m = MEDIATE_REQUEST \<and> (unset (msg_from m) \<or> unset (msg_to m)) \<longrightarrow>
      (\<exists>t. mediator_handle super_handle ctx m s
              = super_handle m (s\<lparr>debug_log := debug_log s @ [InvalidArgument t]\<rparr>)))
   \<and> (msg_type m = RECIPIENT_UPDATE
        \<and> (unset (msg_from m) \<or> unset (msg_to m) \<or> \<not> has_updates m) \<longrightarrow>
      (\<exists>t. mediator_handle super_handle ctx m s
              = super_handle m (s\<lparr>debug_log := debug_log s @ [InvalidArgument t]\<rparr>)
          \<or> mediator_handle super_handle ctx m s
              = super_handle m (s\<lparr>debug_log := debug_log s @ [TypeError t]\<rparr>)))
   \<and> (msg_type m = MEDIATE_DENY \<and> (unset (msg_from m) \<or> unset (msg_to m)) \<longrightarrow>
      (\<exists>t. recipient_handle super_handle m s
              = super_handle m (s\<lparr>debug_log := debug_log s @ [InvalidArgument t]\<rparr>)))
   \<and> (msg_type m = MEDIATE_GRANT
        \<and> (unset (msg_from m) \<or> unset (msg_to m) \<or> unset (msg_threadId m)
            \<or> \<not> has_routing_did m) \<longrightarrow>
      (\<exists>t. recipient_handle super_handle m s
              = (Inr m, s\<lparr>debug_log := debug_log s @ [InvalidArgument t]\<rparr>)
          \<or> recipient_handle super_handle m s
              = (Inr m, s\<lparr>debug_log := debug_log s @ [TypeError t]\<rparr>)))"
  using mediator_request_failure [of m super_handle ctx s]
    mediator_update_failure [of m super_handle ctx s]
    recipient_deny_failure [of m super_handle s]
    recipient_grant_failure [of m super_handle s]
  by blast

text \<open>A request without \<^verbatim>\<open>from\<close>, the update as the chain delivers it (no \<^verbatim>\<open>body\<close>), an update
  with an empty body, a deny without \<^verbatim>\<open>to\<close>, a grant with an empty payload and a grant with no
  payload, each before a next handler that would reject it.\<close>

theorem validation_failure_is_caught_and_logged_witness:
  "mediator_handle unsupported_message_type ctx0 (request0\<lparr>msg_from := None\<rparr>) st0
     = (Inl (Fault ''Unsupported message type''),
        st0\<lparr>debug_log :=
          [InvalidArgument
             ''invalid_argument: MediateRequest received without `from` set'']\<rparr>)
   \<and> \<not> has_updates chain_update0
   \<and> mediator_handle unsupported_message_type ctx0 chain_update0 st0
     = (Inl (Fault ''Unsupported message type''),
        st0\<lparr>debug_log :=
          [TypeError ''Cannot destructure property updates of message.body'']\<rparr>)
   \<and> mediator_handle unsupported_message_type ctx0
        (update0\<lparr>msg_body := Some empty_body\<rparr>) st0
     = (Inl (Fault ''Unsupported message type''),
        st0\<lparr>debug_log :=
          [InvalidArgument
             ''invalid_argument: MediateRecipientUpdate received without `updates` set'']\<rparr>)
   \<and> recipient_handle unsupported_message_type (deny0\<lparr>msg_to := None\<rparr>) st0
     = (Inl (Fault ''Unsupported message type''),
        st0\<lparr>debug_log :=
          [InvalidArgument ''invalid_argument: MediateGrant received without `to` set'']\<rparr>)
   \<and> recipient_handle unsupported_message_type (grant0\<lparr>msg_data := Some empty_body\<rparr>) st0
     = (Inr (grant0\<lparr>msg_data := Some empty_body\<rparr>),
        st0\<lparr>debug_log :=
          [InvalidArgument
             ''invalid_argument: MediateGrant received with invalid routing_did'']\<rparr>)
   \<and> recipient_handle unsupported_message_type (grant0\<lparr>msg_data := None\<rparr>) st0
     = (Inr (grant0\<lparr>msg_data := None\<rparr>),
        st0\<lparr>debug_log :=
          [TypeError ''Cannot read properties of null (reading routing_did)'']\<rparr>)"
  using
    validation_failure_is_caught_and_logged
      [of "request0\<lparr>msg_from := None\<rparr>" unsupported_message_type ctx0 st0]
    validation_failure_is_caught_and_logged
      [of chain_update0 unsupported_message_type ctx0 st0]
    validation_failure_is_caught_and_logged
      [of "update0\<lparr>msg_body := Some empty_body\<rparr>" unsupported_message_type ctx0 st0]
    validation_failure_is_caught_and_logged
      [of "deny0\<lparr>msg_to := None\<rparr>" unsupported_message_type ctx0 st0]
    validation_failure_is_caught_and_logged
      [of "grant0\<lparr>msg_data := Some empty_body\<rparr>" unsupported_message_type ctx0 st0]
    validation_failure_is_caught_and_logged
      [of "grant0\<lparr>msg_data := None\<rparr>" unsupported_message_type ctx0 st0]
  by (simp add: samples has_updates_def has_routing_did_def unset_def message_types
       mediator_handle_def recipient_handle_def handleMediateRequest_def
       handleRecipientUpdate_def handleMediateDeny_def handleMediateGrant_def)

end
